theory Spec2Isabelle
  imports Main
begin

section \<open>Values of the JavaScript runtime\<close>

text \<open>
  A parsed JSON document. Numbers are integers here: the program only tests a number for
  being zero (\<open>Boolean\<close>) and prints integer counters; fractions play no role. An object
  is its list of members in insertion order, looked up with \<open>map_of\<close>.
\<close>

datatype json =
    JNull
  | JBool bool
  | JNum int
  | JStr string
  | JArr "json list"
  | JObj "(string \<times> json) list"

text \<open>\<open>Boolean(v)\<close>, the callback of \<open>itemsData.filter(Boolean)\<close>.\<close>

fun truthy :: "json \<Rightarrow> bool" where
  "truthy JNull = False"
| "truthy (JBool b) = b"
| "truthy (JNum n) = (n \<noteq> 0)"
| "truthy (JStr s) = (s \<noteq> [])"
| "truthy (JArr xs) = True"
| "truthy (JObj kvs) = True"

text \<open>
  What an \<open>await\<close> can throw in this program: a property read on \<open>null\<close> or
  \<open>undefined\<close> or a call of a non-function (TypeError), \<open>response.json()\<close> on a body
  that is not JSON (SyntaxError), and a rejected \<open>fetch\<close> (NetworkError).
\<close>

datatype js_error = TypeError | SyntaxError | NetworkError

subsection \<open>String methods\<close>

definition endsWith :: "string \<Rightarrow> string \<Rightarrow> bool" where
  "endsWith s t = (length t \<le> length s \<and> drop (length s - length t) s = t)"

definition startsWith :: "string \<Rightarrow> string \<Rightarrow> bool" where
  "startsWith s t = (take (length t) s = t)"

text \<open>
  \<open>s.replace(pat, rep)\<close> with a string pattern: only the first occurrence of \<open>pat\<close>,
  scanning from the left, is replaced.
\<close>

fun replace :: "string \<Rightarrow> string \<Rightarrow> string \<Rightarrow> string" where
  "replace [] pat rep = (if pat = [] then rep else [])"
| "replace (c # cs) pat rep =
     (if take (length pat) (c # cs) = pat then rep @ drop (length pat) (c # cs)
      else c # replace cs pat rep)"

text \<open>
  \<open>xs.slice(start, end)\<close>; \<open>None\<close> is an omitted \<open>end\<close>. Negative indices count from
  the end of the array, and every index is clamped to the array.
\<close>

definition slice :: "'a list \<Rightarrow> int \<Rightarrow> int option \<Rightarrow> 'a list" where
  "slice xs start end =
     (let len = int (length xs);
          k = (if start < 0 then max (len + start) 0 else min start len);
          e = (case end of None \<Rightarrow> len | Some e' \<Rightarrow> e');
          final = (if e < 0 then max (len + e) 0 else min e len)
      in take (nat (final - k)) (drop (nat k) xs))"

text \<open>An integer inside a template literal: its decimal digits, with a leading minus sign.\<close>

definition digit :: "nat \<Rightarrow> char" where
  "digit d = ''0123456789'' ! d"

fun digits :: "nat \<Rightarrow> string" where
  "digits n = (if n < 10 then [digit n] else digits (n div 10) @ [digit (n mod 10)])"

declare digits.simps [simp del]

definition toString :: "int \<Rightarrow> string" where
  "toString i = (if i < 0 then ''-'' @ digits (nat (- i)) else digits (nat i))"

text \<open>
  \<open>xs.sort(cmp)\<close>: the sort is stable, and for a consistent comparator its result is
  the stable insertion sort's. \<open>cmp a b \<le> 0\<close> keeps \<open>a\<close> in front of \<open>b\<close>.
\<close>

fun insort_by :: "('a \<Rightarrow> 'a \<Rightarrow> int) \<Rightarrow> 'a \<Rightarrow> 'a list \<Rightarrow> 'a list" where
  "insort_by cmp x [] = [x]"
| "insort_by cmp x (y # ys) = (if cmp x y \<le> 0 then x # y # ys else y # insort_by cmp x ys)"

definition sort_by :: "('a \<Rightarrow> 'a \<Rightarrow> int) \<Rightarrow> 'a list \<Rightarrow> 'a list" where
  "sort_by cmp xs = foldr (insort_by cmp) xs []"

text \<open>\<open>Promise.all\<close>: the results in the order of the promises, or the first rejection.\<close>

fun promise_all :: "(js_error + 'a) list \<Rightarrow> js_error + 'a list" where
  "promise_all [] = Inr []"
| "promise_all (Inl e # ps) = Inl e"
| "promise_all (Inr v # ps) = (case promise_all ps of Inl e \<Rightarrow> Inl e | Inr vs \<Rightarrow> Inr (v # vs))"

subsection \<open>Responses\<close>

text \<open>
  A response body: none, the bytes of an upstream body passed through unread (identified
  with what they parse to, \<open>None\<close> when they are not JSON), or
  \<open>JSON.stringify(data, null, 2)\<close> of a value built by the program.
\<close>

datatype body = NoBody | Passthrough "json option" | Stringified json

record response =
  status :: nat
  headers :: "(string \<times> string) list"
  body :: body

text \<open>\<open>headers.set(name, value)\<close> and \<open>headers.get(name)\<close>.\<close>

fun headers_set :: "string \<Rightarrow> string \<Rightarrow> (string \<times> string) list \<Rightarrow> (string \<times> string) list" where
  "headers_set k v [] = [(k, v)]"
| "headers_set k v ((k', v') # hs) =
     (if k' = k then (k, v) # hs else (k', v') # headers_set k v hs)"

definition headers_get :: "response \<Rightarrow> string \<Rightarrow> string option" where
  "headers_get r k = map_of (headers r) k"

text \<open>The outcome of the global \<open>fetch(url)\<close>: a rejection, or a status and a body.\<close>

datatype fetch_result = Rejected | Responded nat "json option"

definition ok :: "nat \<Rightarrow> bool" where
  "ok st = (200 \<le> st \<and> st \<le> 299)"

section \<open>The worker\<close>

subsection \<open>Configuration\<close>

definition GITHUB_BASE :: string where
  "GITHUB_BASE = ''https://raw.githubusercontent.com/RaidTheory/arcraiders-data/main''"

definition CACHE_TTL :: int where
  "CACHE_TTL = 3600"

definition STALE_WHILE_REVALIDATE :: int where
  "STALE_WHILE_REVALIDATE = 86400"

text \<open>
  The two tables are object literals read with \<open>TABLE[type]\<close>, so a name they do not
  hold is looked up on \<open>Object.prototype\<close>. Of its properties only \<open>constructor\<close>
  is spelt in the letters the routes admit; the value found there is the function
  \<open>Object\<close>, which is truthy and prints in a template literal as below.
\<close>

definition Object_constructor :: string where
  "Object_constructor = ''function Object() { [native code] }''"

definition COLLECTION_TYPES :: "string \<Rightarrow> string option" where
  "COLLECTION_TYPES = map_of
     [(''items'', ''items''),
      (''hideout'', ''hideout''),
      (''quests'', ''quests''),
      (''map-events'', ''map-events''),
      (''constructor'', Object_constructor)]"

definition SINGLE_FILE_TYPES :: "string \<Rightarrow> string option" where
  "SINGLE_FILE_TYPES = map_of
     [(''bots'', ''bots.json''),
      (''maps'', ''maps.json''),
      (''projects'', ''projects.json''),
      (''skillNodes'', ''skillNodes.json''),
      (''skill-nodes'', ''skillNodes.json''),
      (''trades'', ''trades.json''),
      (''constructor'', Object_constructor)]"

subsection \<open>The world outside and the effects of a handler\<close>

text \<open>
  The upstream hosts answer a URL with a \<open>fetch_result\<close>; \<open>localeCompare\<close> is the
  runtime's collation. The edge cache maps a key (the URL of the key request) to the
  response stored under it.
\<close>

record world =
  upstream :: "string \<Rightarrow> fetch_result"
  localeCompare :: "string \<Rightarrow> string \<Rightarrow> int"

type_synonym cache = "string \<Rightarrow> response option"

text \<open>
  What a handler does: the value it returns (or the error it throws), the cache after
  its \<open>cache.put\<close>, and the URLs it fetched from upstream, in order.
\<close>

record 'a effect =
  returned :: 'a
  stored :: cache
  requested :: "string list"

subsection \<open>Response helpers\<close>

definition jsonResponse :: "json \<Rightarrow> nat \<Rightarrow> response" where
  "jsonResponse data st =
     \<lparr>status = st, headers = [(''Content-Type'', ''application/json'')], body = Stringified data\<rparr>"

definition error_body :: "string \<Rightarrow> json" where
  "error_body msg = JObj [(''error'', JStr msg)]"

definition cache_control :: string where
  "cache_control = ''public, max-age='' @ toString CACHE_TTL
     @ '', stale-while-revalidate='' @ toString STALE_WHILE_REVALIDATE"

definition cors_headers :: "(string \<times> string) list" where
  "cors_headers =
     [(''Access-Control-Allow-Origin'', ''*''),
      (''Access-Control-Allow-Methods'', ''GET, OPTIONS''),
      (''Access-Control-Allow-Headers'', ''Content-Type''),
      (''Strict-Transport-Security'', ''max-age=31536000; includeSubDomains; preload''),
      (''X-Content-Type-Options'', ''nosniff''),
      (''X-Frame-Options'', ''DENY''),
      (''X-XSS-Protection'', ''1; mode=block''),
      (''Referrer-Policy'', ''strict-origin-when-cross-origin'')]"

definition addCorsHeaders :: "response \<Rightarrow> response" where
  "addCorsHeaders r =
     r\<lparr>headers := foldl (\<lambda>hs (k, v). headers_set k v hs) (headers r) cors_headers\<rparr>"

definition handleCors :: response where
  "handleCors =
     \<lparr>status = 200,
      headers =
        [(''Access-Control-Allow-Origin'', ''*''),
         (''Access-Control-Allow-Methods'', ''GET, OPTIONS''),
         (''Access-Control-Allow-Headers'', ''Content-Type''),
         (''Access-Control-Max-Age'', ''86400''),
         (''Strict-Transport-Security'', ''max-age=31536000; includeSubDomains; preload'')],
      body = NoBody\<rparr>"

text \<open>The response built from a successful upstream answer in the two pass-through handlers.\<close>

definition passthrough_response :: "json option \<Rightarrow> response" where
  "passthrough_response b =
     \<lparr>status = 200,
      headers = [(''Content-Type'', ''application/json''), (''Cache-Control'', cache_control)],
      body = Passthrough b\<rparr>"

subsection \<open>handleSingleFile\<close>

definition handleSingleFile :: "world \<Rightarrow> cache \<Rightarrow> string \<Rightarrow> (js_error + response) effect" where
  "handleSingleFile w cache type =
     (let filename = (case SINGLE_FILE_TYPES type of None \<Rightarrow> ''undefined'' | Some f \<Rightarrow> f);
          githubUrl = GITHUB_BASE @ ''/'' @ filename
      in case cache githubUrl of
           Some response \<Rightarrow>
             \<lparr>returned = Inr (addCorsHeaders response), stored = cache, requested = []\<rparr>
         | None \<Rightarrow>
             (case upstream w githubUrl of
                Rejected \<Rightarrow>
                  \<lparr>returned = Inl NetworkError, stored = cache, requested = [githubUrl]\<rparr>
              | Responded st b \<Rightarrow>
                  if \<not> ok st then
                    \<lparr>returned = Inr
                       (if st = 404 then jsonResponse (error_body (''Data not found: '' @ type)) 404
                        else jsonResponse (error_body ''Failed to fetch data'') 502),
                     stored = cache, requested = [githubUrl]\<rparr>
                  else
                    \<lparr>returned = Inr (addCorsHeaders (passthrough_response b)),
                     stored = cache(githubUrl \<mapsto> passthrough_response b),
                     requested = [githubUrl]\<rparr>))"

subsection \<open>handleGetItem\<close>

definition handleGetItem ::
  "world \<Rightarrow> cache \<Rightarrow> string \<Rightarrow> string \<Rightarrow> (js_error + response) effect" where
  "handleGetItem w cache type ident =
     (case COLLECTION_TYPES type of
        None \<Rightarrow>
          \<lparr>returned = Inr (jsonResponse (error_body (''Unknown collection type: '' @ type)) 404),
           stored = cache, requested = []\<rparr>
      | Some dirPath \<Rightarrow>
          (let githubUrl = GITHUB_BASE @ ''/'' @ dirPath @ ''/'' @ ident @ ''.json''
           in case cache githubUrl of
                Some response \<Rightarrow>
                  \<lparr>returned = Inr (addCorsHeaders response), stored = cache, requested = []\<rparr>
              | None \<Rightarrow>
                  (case upstream w githubUrl of
                     Rejected \<Rightarrow>
                       \<lparr>returned = Inl NetworkError, stored = cache, requested = [githubUrl]\<rparr>
                   | Responded st b \<Rightarrow>
                       if \<not> ok st then
                         \<lparr>returned = Inr
                            (if st = 404 then
                               jsonResponse
                                 (error_body (slice type 0 (Some (- 1)) @ '' not found: '' @ ident)) 404
                             else jsonResponse (error_body ''Failed to fetch data'') 502),
                          stored = cache, requested = [githubUrl]\<rparr>
                       else
                         \<lparr>returned = Inr (addCorsHeaders (passthrough_response b)),
                          stored = cache(githubUrl \<mapsto> passthrough_response b),
                          requested = [githubUrl]\<rparr>)))"

subsection \<open>handleList\<close>

text \<open>
  The filter callback
  \<open>f.type === 'file' && f.name.endsWith('.json') && !f.name.startsWith('_')\<close>
  on one entry of the manifest: reading \<open>f.type\<close> throws on \<open>null\<close>, gives
  \<open>undefined\<close> on every other value that is not an object holding the member, and
  \<open>f.name.endsWith\<close> is only callable when \<open>f.name\<close> is a string.
\<close>

fun keep_file :: "json \<Rightarrow> js_error + bool" where
  "keep_file JNull = Inl TypeError"
| "keep_file (JObj kvs) =
     (if map_of kvs ''type'' = Some (JStr ''file'') then
        (case map_of kvs ''name'' of
           Some (JStr n) \<Rightarrow> Inr (endsWith n ''.json'' \<and> \<not> startsWith n ''_'')
         | _ \<Rightarrow> Inl TypeError)
      else Inr False)"
| "keep_file f = Inr False"

text \<open>\<open>f.name\<close> of an entry the filter kept.\<close>

fun file_name :: "json \<Rightarrow> string" where
  "file_name (JObj kvs) = (case map_of kvs ''name'' of Some (JStr n) \<Rightarrow> n | _ \<Rightarrow> [])"
| "file_name f = []"

text \<open>\<open>files.filter(...)\<close>, which stops at the first entry whose callback throws.\<close>

fun filter_files :: "json list \<Rightarrow> js_error + json list" where
  "filter_files [] = Inr []"
| "filter_files (f # fs) =
     (case keep_file f of
        Inl e \<Rightarrow> Inl e
      | Inr b \<Rightarrow>
          (case filter_files fs of
             Inl e \<Rightarrow> Inl e
           | Inr kept \<Rightarrow> Inr (if b then f # kept else kept)))"

text \<open>
  \<open>allJsonFiles\<close>: the filter, \<open>f.name.replace('.json', '')\<close> and the sort by
  \<open>localeCompare\<close>. Only an array has a \<open>filter\<close> method.
\<close>

definition allJsonFiles :: "(string \<Rightarrow> string \<Rightarrow> int) \<Rightarrow> json \<Rightarrow> js_error + string list" where
  "allJsonFiles cmp files =
     (case files of
        JArr fs \<Rightarrow>
          (case filter_files fs of
             Inl e \<Rightarrow> Inl e
           | Inr kept \<Rightarrow> Inr (sort_by cmp (map (\<lambda>f. replace (file_name f) ''.json'' []) kept)))
      | _ \<Rightarrow> Inl TypeError)"

definition MAX_ITEMS :: int where
  "MAX_ITEMS = 45"

text \<open>
  \<open>limit && limit < MAX_ITEMS ? limit : MAX_ITEMS\<close>; \<open>None\<close> is \<open>undefined\<close>, and
  zero is falsy.
\<close>

definition effectiveLimit :: "int option \<Rightarrow> int" where
  "effectiveLimit limit =
     (case limit of
        None \<Rightarrow> MAX_ITEMS
      | Some l \<Rightarrow> if l \<noteq> 0 \<and> l < MAX_ITEMS then l else MAX_ITEMS)"

text \<open>\<open>jsonFiles\<close> after the pagination step, and \<open>limitedFiles\<close> of the full mode.\<close>

definition jsonFiles :: "string list \<Rightarrow> int \<Rightarrow> string list" where
  "jsonFiles allFiles offset = (if offset > 0 then slice allFiles offset None else allFiles)"

definition limitedFiles :: "string list \<Rightarrow> int option \<Rightarrow> int \<Rightarrow> string list" where
  "limitedFiles allFiles limit offset =
     slice (jsonFiles allFiles offset) 0 (Some (effectiveLimit limit))"

definition itemUrl :: "string \<Rightarrow> string \<Rightarrow> string" where
  "itemUrl dirPath ident = GITHUB_BASE @ ''/'' @ dirPath @ ''/'' @ ident @ ''.json''"

text \<open>The asynchronous callback of \<open>limitedFiles.map\<close>: one promise per identifier.\<close>

definition fetchItem :: "world \<Rightarrow> string \<Rightarrow> string \<Rightarrow> js_error + json" where
  "fetchItem w dirPath ident =
     (case upstream w (itemUrl dirPath ident) of
        Rejected \<Rightarrow> Inl NetworkError
      | Responded st b \<Rightarrow>
          if ok st then (case b of None \<Rightarrow> Inl SyntaxError | Some j \<Rightarrow> Inr j)
          else Inr JNull)"

text \<open>The \<open>data\<close> object of the full mode, with its pagination hints.\<close>

definition fullData :: "string \<Rightarrow> int \<Rightarrow> int \<Rightarrow> int \<Rightarrow> json list \<Rightarrow> json" where
  "fullData type totalItems offset lim itemsData =
     JObj
       ([(''type'', JStr type),
         (''total'', JNum totalItems),
         (''count'', JNum (int (length (filter truthy itemsData)))),
         (''offset'', JNum offset),
         (''limit'', JNum lim),
         (''items'', JArr (filter truthy itemsData))]
        @ (if offset + lim < totalItems then
             [(''next'', JStr (''/v1/'' @ type @ ''?full=true&offset='' @ toString (offset + lim)
                 @ ''&limit='' @ toString lim))]
           else [])
        @ (if offset > 0 then
             [(''prev'', JStr (''/v1/'' @ type @ ''?full=true&offset=''
                 @ toString (max 0 (offset - lim)) @ ''&limit='' @ toString lim))]
           else []))"

text \<open>The \<open>data\<close> object of the list-only mode.\<close>

definition listData :: "string \<Rightarrow> string list \<Rightarrow> json" where
  "listData type ids =
     JObj
       [(''type'', JStr type),
        (''count'', JNum (int (length ids))),
        (''items'',
           JArr (map (\<lambda>ident. JObj [(''id'', JStr ident), (''url'', JStr (''/v1/'' @ type @ ''/'' @ ident))])
             ids))]"

text \<open>\<open>jsonResponse(data)\<close> with the \<open>Cache-Control\<close> header set on it.\<close>

definition cacheable :: "json \<Rightarrow> response" where
  "cacheable data =
     (let r = jsonResponse data 200
      in r\<lparr>headers := headers_set ''Cache-Control'' cache_control (headers r)\<rparr>)"

definition githubApiUrl :: "string \<Rightarrow> string" where
  "githubApiUrl dirPath =
     ''https://api.github.com/repos/RaidTheory/arcraiders-data/contents/'' @ dirPath"

definition handleList ::
  "world \<Rightarrow> cache \<Rightarrow> string \<Rightarrow> bool \<Rightarrow> int option \<Rightarrow> int \<Rightarrow> (js_error + response) effect" where
  "handleList w cache type full limit offset =
     (case COLLECTION_TYPES type of
        None \<Rightarrow>
          \<lparr>returned = Inr (jsonResponse (error_body (''Unknown collection type: '' @ type)) 404),
           stored = cache, requested = []\<rparr>
      | Some dirPath \<Rightarrow>
          (let cacheKeySuffix = (if full then ''?full=true'' else []);
               cacheKey = githubApiUrl dirPath @ cacheKeySuffix
           in case cache cacheKey of
                Some response \<Rightarrow>
                  \<lparr>returned = Inr (addCorsHeaders response), stored = cache, requested = []\<rparr>
              | None \<Rightarrow>
                  (case upstream w (githubApiUrl dirPath) of
                     Rejected \<Rightarrow>
                       \<lparr>returned = Inl NetworkError, stored = cache,
                        requested = [githubApiUrl dirPath]\<rparr>
                   | Responded st b \<Rightarrow>
                       if \<not> ok st then
                         \<lparr>returned = Inr (jsonResponse (error_body (''Failed to list '' @ type)) 502),
                          stored = cache, requested = [githubApiUrl dirPath]\<rparr>
                       else
                         (case b of
                            None \<Rightarrow>
                              \<lparr>returned = Inl SyntaxError, stored = cache,
                               requested = [githubApiUrl dirPath]\<rparr>
                          | Some files \<Rightarrow>
                              (case allJsonFiles (localeCompare w) files of
                                 Inl e \<Rightarrow>
                                   \<lparr>returned = Inl e, stored = cache,
                                    requested = [githubApiUrl dirPath]\<rparr>
                               | Inr allFiles \<Rightarrow>
                                   if full then
                                     (let ids = limitedFiles allFiles limit offset;
                                          urls = githubApiUrl dirPath # map (itemUrl dirPath) ids
                                      in case promise_all (map (fetchItem w dirPath) ids) of
                                           Inl e \<Rightarrow>
                                             \<lparr>returned = Inl e, stored = cache, requested = urls\<rparr>
                                         | Inr itemsData \<Rightarrow>
                                             (let response = cacheable
                                                    (fullData type (int (length allFiles)) offset
                                                       (effectiveLimit limit) itemsData)
                                              in \<lparr>returned = Inr (addCorsHeaders response),
                                                  stored = cache(cacheKey \<mapsto> response),
                                                  requested = urls\<rparr>))
                                   else
                                     (let response = cacheable
                                            (listData type (jsonFiles allFiles offset))
                                      in \<lparr>returned = Inr (addCorsHeaders response),
                                          stored = cache(cacheKey \<mapsto> response),
                                          requested = [githubApiUrl dirPath]\<rparr>))))))"

subsection \<open>The router\<close>

text \<open>
  The request as the router reads it: the method, \<open>url.pathname\<close>,
  \<open>url.searchParams.get('full')\<close> (\<open>None\<close> for \<open>null\<close>), and what the built-in
  \<open>parseInt\<close> makes of the \<open>limit\<close> and \<open>offset\<close> parameters (\<open>None\<close> for \<open>NaN\<close>).
\<close>

record request =
  http_method :: string
  pathname :: string
  param_full :: "string option"
  param_limit :: "int option"
  param_offset :: "int option"

definition is_type_char :: "char \<Rightarrow> bool" where
  "is_type_char c = (c \<in> set ''abcdefghijklmnopqrstuvwxyz-'')"

definition is_id_char :: "char \<Rightarrow> bool" where
  "is_id_char c = (c \<in> set ''abcdefghijklmnopqrstuvwxyz0123456789_-'')"

text \<open>The optional trailing slash \<open>\/?$\<close> of both route patterns.\<close>

definition strip_slash :: "string \<Rightarrow> string" where
  "strip_slash s = (if s \<noteq> [] \<and> last s = CHR ''/'' then butlast s else s)"

text \<open>\<open>path.match(/^\/v1\/([a-z-]+)\/?$/)\<close>: the captured type.\<close>

definition listMatch :: "string \<Rightarrow> string option" where
  "listMatch path =
     (let t = strip_slash (drop 4 path)
      in if take 4 path = ''/v1/'' \<and> t \<noteq> [] \<and> list_all is_type_char t then Some t else None)"

text \<open>\<open>path.match(/^\/v1\/([a-z-]+)\/([a-z0-9_-]+)\/?$/)\<close>: the captured type and id.\<close>

definition itemMatch :: "string \<Rightarrow> (string \<times> string) option" where
  "itemMatch path =
     (let rest = drop 4 path;
          t = takeWhile (\<lambda>c. c \<noteq> CHR ''/'') rest;
          after = dropWhile (\<lambda>c. c \<noteq> CHR ''/'') rest;
          i = strip_slash (drop 1 after)
      in if take 4 path = ''/v1/'' \<and> t \<noteq> [] \<and> list_all is_type_char t \<and> after \<noteq> []
            \<and> i \<noteq> [] \<and> list_all is_id_char i
         then Some (t, i) else None)"

definition api_info :: json where
  "api_info =
     JObj
       [(''name'', JStr ''ArcRaiders Data API''),
        (''version'', JStr ''1.0.0''),
        (''endpoints'',
           JObj
             [(''bots'', JStr ''/v1/bots''),
              (''maps'', JStr ''/v1/maps''),
              (''projects'', JStr ''/v1/projects''),
              (''skillNodes'', JStr ''/v1/skill-nodes''),
              (''trades'', JStr ''/v1/trades''),
              (''items'', JStr ''/v1/items''),
              (''item'', JStr ''/v1/items/{item_id}''),
              (''hideout'', JStr ''/v1/hideout''),
              (''hideoutModule'', JStr ''/v1/hideout/{module_id}''),
              (''quests'', JStr ''/v1/quests''),
              (''quest'', JStr ''/v1/quests/{quest_id}''),
              (''mapEvents'', JStr ''/v1/map-events''),
              (''mapEvent'', JStr ''/v1/map-events/{event_id}'')]),
        (''source'', JStr ''https://github.com/RaidTheory/arcraiders-data'')]"

text \<open>A handler that answers at once, without the cache or the upstream.\<close>

definition answer :: "response \<Rightarrow> cache \<Rightarrow> (js_error + response) effect" where
  "answer r cache = \<lparr>returned = Inr r, stored = cache, requested = []\<rparr>"

text \<open>
  The body of the \<open>try\<close> block. \<open>parseInt(...) || undefined\<close> and \<open>parseInt(...) || 0\<close>
  replace \<open>NaN\<close> and zero by the default.
\<close>

definition route :: "world \<Rightarrow> cache \<Rightarrow> request \<Rightarrow> (js_error + response) effect" where
  "route w cache req =
     (case listMatch (pathname req) of
        Some type \<Rightarrow>
          if SINGLE_FILE_TYPES type \<noteq> None then handleSingleFile w cache type
          else if COLLECTION_TYPES type \<noteq> None then
            (let full = (param_full req = Some ''true'');
                 limit = (case param_limit req of
                            None \<Rightarrow> None
                          | Some l \<Rightarrow> if l \<noteq> 0 then Some l else None);
                 offset = (case param_offset req of
                             None \<Rightarrow> 0
                           | Some n \<Rightarrow> if n \<noteq> 0 then n else 0)
             in handleList w cache type full limit offset)
          else answer (jsonResponse (error_body (''Unknown data type: '' @ type)) 404) cache
      | None \<Rightarrow>
          (case itemMatch (pathname req) of
             Some (type, ident) \<Rightarrow> handleGetItem w cache type ident
           | None \<Rightarrow>
               if pathname req = ''/v1'' \<or> pathname req = ''/v1/'' \<or> pathname req = ''/''
               then answer (jsonResponse api_info 200) cache
               else answer (jsonResponse (error_body ''Not Found'') 404) cache))"

text \<open>
  The exported \<open>fetch\<close> handler: the preflight answer, or the routed one, with every
  error thrown inside the \<open>try\<close> block turned into a 500.
\<close>

definition fetch :: "world \<Rightarrow> cache \<Rightarrow> request \<Rightarrow> response effect" where
  "fetch w cache req =
     (if http_method req = ''OPTIONS'' then
        \<lparr>returned = handleCors, stored = cache, requested = []\<rparr>
      else
        (let e = route w cache req
         in case returned e of
              Inl err \<Rightarrow>
                \<lparr>returned = jsonResponse (error_body ''Internal Server Error'') 500,
                 stored = stored e, requested = requested e\<rparr>
            | Inr r \<Rightarrow> \<lparr>returned = r, stored = stored e, requested = requested e\<rparr>))"

subsection \<open>Reading a response\<close>

text \<open>The member \<open>k\<close> of the JSON object a response carries, if it carries one.\<close>

definition member :: "response \<Rightarrow> string \<Rightarrow> json option" where
  "member r k = (case body r of Stringified (JObj kvs) \<Rightarrow> map_of kvs k | _ \<Rightarrow> None)"

text \<open>The names of the members of that object, in order: the shape of the payload.\<close>

definition members :: "response \<Rightarrow> string list" where
  "members r = (case body r of Stringified (JObj kvs) \<Rightarrow> map fst kvs | _ \<Rightarrow> [])"

section \<open>Sample worlds\<close>

text \<open>
  Concrete inputs for the closed theorems below: a collation that compares code units
  (it agrees with every locale on lower-case ASCII words), manifest entries as the
  contents API lists them, and an upstream given by a table of URLs, which answers 404
  everywhere else.
\<close>

fun code_unit_compare :: "string \<Rightarrow> string \<Rightarrow> int" where
  "code_unit_compare [] [] = 0"
| "code_unit_compare [] (y # ys) = - 1"
| "code_unit_compare (x # xs) [] = 1"
| "code_unit_compare (x # xs) (y # ys) =
     (if (of_char x :: nat) < of_char y then - 1
      else if (of_char y :: nat) < of_char x then 1
      else code_unit_compare xs ys)"

definition entry :: "string \<Rightarrow> string \<Rightarrow> json" where
  "entry kind name = JObj [(''name'', JStr name), (''type'', JStr kind)]"

definition serve :: "(string \<times> fetch_result) list \<Rightarrow> world" where
  "serve table =
     \<lparr>upstream = (\<lambda>url. case map_of table url of None \<Rightarrow> Responded 404 None | Some r \<Rightarrow> r),
      localeCompare = code_unit_compare\<rparr>"

definition get :: "string \<Rightarrow> request" where
  "get path =
     \<lparr>http_method = ''GET'', pathname = path, param_full = None, param_limit = None,
      param_offset = None\<rparr>"

definition get_full :: "string \<Rightarrow> int option \<Rightarrow> int option \<Rightarrow> request" where
  "get_full path limit offset =
     \<lparr>http_method = ''GET'', pathname = path, param_full = Some ''true'', param_limit = limit,
      param_offset = offset\<rparr>"

text \<open>
  The \<open>items\<close> directory with the files \<open>b.json\<close> and \<open>a.json\<close> among entries the
  filter drops; the two items are answered as the parameters say.
\<close>

definition items_listing :: json where
  "items_listing =
     JArr
       [entry ''file'' ''b.json'',
        entry ''file'' ''a.json'',
        entry ''file'' ''_schema.json'',
        entry ''dir'' ''icons.json'',
        entry ''file'' ''README.md'']"

definition item_a :: json where
  "item_a = JObj [(''id'', JStr ''a'')]"

definition item_b :: json where
  "item_b = JObj [(''id'', JStr ''b'')]"

definition found :: "json \<Rightarrow> fetch_result" where
  "found j = Responded 200 (Some j)"

definition missing :: fetch_result where
  "missing = Responded 404 None"

definition items_world :: "fetch_result \<Rightarrow> fetch_result \<Rightarrow> world" where
  "items_world answer_a answer_b =
     serve
       [(githubApiUrl ''items'', found items_listing),
        (itemUrl ''items'' ''a'', answer_a),
        (itemUrl ''items'' ''b'', answer_b)]"

text \<open>An upstream that serves \<open>skillNodes.json\<close> and nothing else.\<close>

definition skill_world :: world where
  "skill_world = serve [(GITHUB_BASE @ ''/skillNodes.json'', found (JArr []))]"

section \<open>Header sets\<close>

text \<open>
  The headers of \<open>addCorsHeaders\<close>, and those of the preflight answer \<open>handleCors\<close>, as
  \<open>headers.get\<close> reads them off a response.
\<close>

definition cors_and_security_headers :: "response \<Rightarrow> bool" where
  "cors_and_security_headers r =
     (headers_get r ''Access-Control-Allow-Origin'' = Some ''*''
      \<and> headers_get r ''Access-Control-Allow-Methods'' = Some ''GET, OPTIONS''
      \<and> headers_get r ''Access-Control-Allow-Headers'' = Some ''Content-Type''
      \<and> headers_get r ''Strict-Transport-Security''
          = Some ''max-age=31536000; includeSubDomains; preload''
      \<and> headers_get r ''X-Content-Type-Options'' = Some ''nosniff''
      \<and> headers_get r ''X-Frame-Options'' = Some ''DENY''
      \<and> headers_get r ''X-XSS-Protection'' = Some ''1; mode=block''
      \<and> headers_get r ''Referrer-Policy'' = Some ''strict-origin-when-cross-origin'')"

definition preflight_headers :: "response \<Rightarrow> bool" where
  "preflight_headers r =
     (headers_get r ''Access-Control-Allow-Origin'' = Some ''*''
      \<and> headers_get r ''Access-Control-Allow-Methods'' = Some ''GET, OPTIONS''
      \<and> headers_get r ''Access-Control-Allow-Headers'' = Some ''Content-Type''
      \<and> headers_get r ''Access-Control-Max-Age'' = Some ''86400''
      \<and> headers_get r ''Strict-Transport-Security''
          = Some ''max-age=31536000; includeSubDomains; preload'')"

section \<open>Facts about the runtime helpers\<close>

lemma slice_from: "slice xs k None = drop (nat k) xs" if "0 \<le> k"
  using that by (auto simp: slice_def Let_def min_def)

lemma slice_upto: "slice xs 0 (Some n) = take (nat n) xs" if "0 \<le> n"
  using that by (auto simp: slice_def Let_def min_def)

lemma slice_upto_neg: "slice xs 0 (Some n) = take (length xs - nat (- n)) xs" if "n < 0"
  using that
  by (auto simp: slice_def Let_def max_def nat_diff_distrib' intro!: arg_cong2[where f=take])

lemma jsonFiles_drop: "jsonFiles allFiles offset = drop (nat offset) allFiles"
  by (simp add: jsonFiles_def slice_from)

lemma map_of_headers_set:
  "map_of (headers_set k v hs) k' = (if k' = k then Some v else map_of hs k')"
  by (induction hs) auto

lemma body_addCorsHeaders [simp]: "body (addCorsHeaders r) = body r"
  by (simp add: addCorsHeaders_def)

lemma status_addCorsHeaders [simp]: "status (addCorsHeaders r) = status r"
  by (simp add: addCorsHeaders_def)

lemma member_addCorsHeaders [simp]: "member (addCorsHeaders r) k = member r k"
  by (simp add: member_def)

lemma members_addCorsHeaders [simp]: "members (addCorsHeaders r) = members r"
  by (simp add: members_def)

lemma body_cacheable [simp]: "body (cacheable d) = Stringified d"
  by (simp add: cacheable_def jsonResponse_def Let_def)

lemma status_cacheable [simp]: "status (cacheable d) = 200"
  by (simp add: cacheable_def jsonResponse_def Let_def)

lemma headers_get_addCorsHeaders:
  "headers_get (addCorsHeaders r) k =
     (case map_of cors_headers k of Some v \<Rightarrow> Some v | None \<Rightarrow> headers_get r k)"
  by (simp add: headers_get_def addCorsHeaders_def cors_headers_def map_of_headers_set)

lemma promise_all_map_Inr:
  "(\<And>x. x \<in> set xs \<Longrightarrow> f x = Inr (g x)) \<Longrightarrow> promise_all (map f xs) = Inr (map g xs)"
  by (induction xs) auto

lemma promise_all_length: "promise_all ps = Inr vs \<Longrightarrow> length vs = length ps"
  by (induction ps arbitrary: vs rule: promise_all.induct) (auto split: sum.splits)


section \<open>The collection handler on a cache miss\<close>

text \<open>
  With no entry under the cache key and a well-formed listing, \<open>handleList\<close> builds its
  answer from the sorted identifiers. These two equations are the handler's code with the
  guards resolved.
\<close>

lemma handleList_list_miss:
  assumes "COLLECTION_TYPES type = Some dirPath"
    and "cache (githubApiUrl dirPath) = None"
    and "upstream w (githubApiUrl dirPath) = Responded st (Some files)"
    and "ok st"
    and "allJsonFiles (localeCompare w) files = Inr allFiles"
  shows "handleList w cache type False limit offset =
     \<lparr>returned = Inr (addCorsHeaders (cacheable (listData type (jsonFiles allFiles offset)))),
      stored = cache(githubApiUrl dirPath \<mapsto> cacheable (listData type (jsonFiles allFiles offset))),
      requested = [githubApiUrl dirPath]\<rparr>"
  using assms by (simp add: handleList_def Let_def)

lemma handleList_full_miss:
  assumes "COLLECTION_TYPES type = Some dirPath"
    and "cache (githubApiUrl dirPath @ ''?full=true'') = None"
    and "upstream w (githubApiUrl dirPath) = Responded st (Some files)"
    and "ok st"
    and "allJsonFiles (localeCompare w) files = Inr allFiles"
    and "promise_all (map (fetchItem w dirPath) (limitedFiles allFiles limit offset)) = Inr itemsData"
  shows "handleList w cache type True limit offset =
     \<lparr>returned = Inr (addCorsHeaders (cacheable
         (fullData type (int (length allFiles)) offset (effectiveLimit limit) itemsData))),
      stored = cache(githubApiUrl dirPath @ ''?full=true'' \<mapsto> cacheable
         (fullData type (int (length allFiles)) offset (effectiveLimit limit) itemsData)),
      requested = githubApiUrl dirPath # map (itemUrl dirPath) (limitedFiles allFiles limit offset)\<rparr>"
  using assms by (simp add: handleList_def Let_def)

lemma member_listData:
  "member (cacheable (listData type ids)) ''items'' =
     Some (JArr (map (\<lambda>ident. JObj [(''id'', JStr ident),
       (''url'', JStr (''/v1/'' @ type @ ''/'' @ ident))]) ids))"
  "member (cacheable (listData type ids)) ''count'' = Some (JNum (int (length ids)))"
  by (simp_all add: member_def listData_def)

lemma member_fullData:
  "member (cacheable (fullData type n offset lim itemsData)) ''items'' =
     Some (JArr (filter truthy itemsData))"
  "member (cacheable (fullData type n offset lim itemsData)) ''count'' =
     Some (JNum (int (length (filter truthy itemsData))))"
  "member (cacheable (fullData type n offset lim itemsData)) ''total'' = Some (JNum n)"
  "member (cacheable (fullData type n offset lim itemsData)) ''limit'' = Some (JNum lim)"
  "member (cacheable (fullData type n offset lim itemsData)) ''offset'' = Some (JNum offset)"
  by (simp_all add: member_def fullData_def)

lemma member_fullData_next:
  "member (cacheable (fullData type n offset lim itemsData)) ''next'' =
     (if offset + lim < n then
        Some (JStr (''/v1/'' @ type @ ''?full=true&offset='' @ toString (offset + lim)
          @ ''&limit='' @ toString lim))
      else None)"
  by (simp add: member_def fullData_def)

lemma member_fullData_prev:
  "member (cacheable (fullData type n offset lim itemsData)) ''prev'' =
     (if offset > 0 then
        Some (JStr (''/v1/'' @ type @ ''?full=true&offset='' @ toString (max 0 (offset - lim))
          @ ''&limit='' @ toString lim))
      else None)"
  by (simp add: member_def fullData_def)

lemma members_fullData:
  "members (cacheable (fullData type n offset lim itemsData)) =
     [''type'', ''total'', ''count'', ''offset'', ''limit'', ''items'']
     @ (if offset + lim < n then [''next''] else []) @ (if offset > 0 then [''prev''] else [])"
  by (simp add: members_def fullData_def)

section \<open>Routes\<close>

lemma collection_items: "COLLECTION_TYPES ''items'' = Some ''items''"
  by (simp add: COLLECTION_TYPES_def)

lemma ok_200: "ok 200"
  by (simp add: ok_def)

lemma route_items:
  "pathname req = ''/v1/items'' \<Longrightarrow>
   route w cache req =
     handleList w cache ''items'' (param_full req = Some ''true'')
       (case param_limit req of None \<Rightarrow> None | Some l \<Rightarrow> if l \<noteq> 0 then Some l else None)
       (case param_offset req of None \<Rightarrow> 0 | Some n \<Rightarrow> n)"
  by (auto simp: route_def listMatch_def strip_slash_def is_type_char_def SINGLE_FILE_TYPES_def
      collection_items split: option.splits)

lemma route_item:
  "itemMatch (pathname req) = Some (type, ident) \<Longrightarrow> listMatch (pathname req) = None \<Longrightarrow>
   route w cache req = handleGetItem w cache type ident"
  by (simp add: route_def)

section \<open>Facts about the sample worlds\<close>

lemma items_world_listing:
  "upstream (items_world ra rb) (githubApiUrl ''items'') = Responded 200 (Some items_listing)"
  by (simp add: items_world_def serve_def found_def)

lemma items_world_a: "upstream (items_world ra rb) (itemUrl ''items'' ''a'') = ra"
  by (simp add: items_world_def serve_def githubApiUrl_def itemUrl_def GITHUB_BASE_def)

lemma items_world_b: "upstream (items_world ra rb) (itemUrl ''items'' ''b'') = rb"
  by (simp add: items_world_def serve_def githubApiUrl_def itemUrl_def GITHUB_BASE_def)

lemma items_world_compare: "localeCompare (items_world ra rb) = code_unit_compare"
  by (simp add: items_world_def serve_def)

lemma items_listing_ids: "allJsonFiles code_unit_compare items_listing = Inr [''a'', ''b'']"
  by (simp add: allJsonFiles_def items_listing_def entry_def endsWith_def startsWith_def
      sort_by_def)

lemma items_world_ids:
  "allJsonFiles (localeCompare (items_world ra rb)) items_listing = Inr [''a'', ''b'']"
  by (simp add: items_world_compare items_listing_ids)

lemma fetchItem_a: "fetchItem (items_world (found j) rb) ''items'' ''a'' = Inr j"
  by (simp add: fetchItem_def items_world_a found_def ok_200)

lemma fetchItem_b: "fetchItem (items_world ra (found j)) ''items'' ''b'' = Inr j"
  by (simp add: fetchItem_def items_world_b found_def ok_200)


lemma fetchItem_b_missing: "fetchItem (items_world ra missing) ''items'' ''b'' = Inr JNull"
  by (simp add: fetchItem_def items_world_b missing_def ok_def)



lemma truthy_items: "truthy item_a" "truthy item_b"
  by (simp_all add: item_a_def item_b_def)

lemma page_all: "limitedFiles [''a'', ''b''] None 0 = [''a'', ''b'']"
  by (simp add: limitedFiles_def jsonFiles_def effectiveLimit_def MAX_ITEMS_def slice_def)

lemma page_from_1: "limitedFiles [''a'', ''b''] None 1 = [''b'']"
  by (simp add: limitedFiles_def jsonFiles_def effectiveLimit_def MAX_ITEMS_def slice_def)

lemma page_first: "limitedFiles [''a'', ''b''] (Some 1) 0 = [''a'']"
  by (simp add: limitedFiles_def jsonFiles_def effectiveLimit_def MAX_ITEMS_def slice_def)

text \<open>A \<open>full=true\<close> request for \<open>/v1/items\<close> in a sample world, with nothing cached.\<close>

lemma fetch_items_full_miss:
  assumes "pathname req = ''/v1/items''" and "http_method req \<noteq> ''OPTIONS''"
    and "param_full req = Some ''true''"
    and "cache (githubApiUrl ''items'' @ ''?full=true'') = None"
    and "limit = (case param_limit req of None \<Rightarrow> None | Some l \<Rightarrow> if l \<noteq> 0 then Some l else None)"
    and "offset = (case param_offset req of None \<Rightarrow> 0 | Some n \<Rightarrow> n)"
    and "promise_all (map (fetchItem (items_world ra rb) ''items'') (limitedFiles [''a'', ''b''] limit offset))
           = Inr itemsData"
  shows "fetch (items_world ra rb) cache req =
     \<lparr>returned = addCorsHeaders (cacheable (fullData ''items'' 2 offset (effectiveLimit limit) itemsData)),
      stored = cache(githubApiUrl ''items'' @ ''?full=true'' \<mapsto>
         cacheable (fullData ''items'' 2 offset (effectiveLimit limit) itemsData)),
      requested = githubApiUrl ''items'' # map (itemUrl ''items'') (limitedFiles [''a'', ''b''] limit offset)\<rparr>"
proof -
  have "handleList (items_world ra rb) cache ''items'' True limit offset =
     \<lparr>returned = Inr (addCorsHeaders (cacheable
         (fullData ''items'' (int (length [''a'', ''b''])) offset (effectiveLimit limit) itemsData))),
      stored = cache(githubApiUrl ''items'' @ ''?full=true'' \<mapsto> cacheable
         (fullData ''items'' (int (length [''a'', ''b''])) offset (effectiveLimit limit) itemsData)),
      requested = githubApiUrl ''items'' # map (itemUrl ''items'') (limitedFiles [''a'', ''b''] limit offset)\<rparr>"
    using collection_items assms(4) items_world_listing ok_200 items_world_ids assms(7)
    by (rule handleList_full_miss)
  then show ?thesis
    using assms(1,2,3,5,6) by (simp add: fetch_def route_items)
qed

section \<open>Item fetches of the full mode\<close>






text \<open>
  An item fetch throws when it is rejected or when its 2xx body is not JSON, and one
  thrown item fetch makes the whole batch throw.
\<close>

lemma promise_all_thrown:
  "x \<in> set xs \<Longrightarrow> f x = Inl e \<Longrightarrow> \<exists>e'. promise_all (map f xs) = Inl e'"
proof (induction xs)
  case Nil
  then show ?case by simp
next
  case (Cons y ys)
  then show ?case
    by (cases "f y"; cases "promise_all (map f ys)") auto
qed

lemma fetchItem_thrown:
  "fetchItem w dirPath x = Inl e \<longleftrightarrow>
     (upstream w (itemUrl dirPath x) = Rejected \<and> e = NetworkError
      \<or> (\<exists>s. ok s \<and> upstream w (itemUrl dirPath x) = Responded s None) \<and> e = SyntaxError)"
  by (auto simp: fetchItem_def split: fetch_result.splits option.splits)


section \<open>The ceiling of the full mode\<close>

text \<open>
  For a \<open>limit\<close> that is absent or not negative, the answer built from the listing
  keeps the invariant of the aggregate result: \<open>count\<close> is the number of items, at most
  the effective limit, which is at most 45 and is the requested limit cut at 45 when that
  is positive; \<open>total\<close> is the number of identifiers of the listing, whatever the offset.
\<close>

lemma effectiveLimit_le_ceiling: "effectiveLimit limit \<le> 45"
  by (simp add: effectiveLimit_def MAX_ITEMS_def split: option.splits)

lemma effectiveLimit_nonnegative:
  "\<forall>l. limit = Some l \<longrightarrow> 0 \<le> l \<Longrightarrow>
   effectiveLimit limit = (case limit of None \<Rightarrow> 45 | Some l \<Rightarrow> if 0 < l then min l 45 else 45)"
  by (auto simp: effectiveLimit_def MAX_ITEMS_def split: option.splits)

lemma page_within_limit:
  "0 \<le> effectiveLimit limit \<Longrightarrow>
   int (length (limitedFiles allFiles limit offset)) \<le> effectiveLimit limit"
  by (simp add: limitedFiles_def slice_upto)

lemma limitedFiles_take_drop:
  "0 \<le> effectiveLimit limit \<Longrightarrow>
   limitedFiles allFiles limit offset = take (nat (effectiveLimit limit)) (drop (nat offset) allFiles)"
  by (simp add: limitedFiles_def slice_upto jsonFiles_drop)

lemma full_mode_invariant:
  assumes "COLLECTION_TYPES type = Some dirPath"
    and "cache (githubApiUrl dirPath @ ''?full=true'') = None"
    and "upstream w (githubApiUrl dirPath) = Responded st (Some files)"
    and "ok st"
    and "allJsonFiles (localeCompare w) files = Inr allFiles"
    and "promise_all (map (fetchItem w dirPath) (limitedFiles allFiles limit offset)) = Inr itemsData"
    and "\<forall>l. limit = Some l \<longrightarrow> 0 \<le> l"
  shows "\<exists>r items. returned (handleList w cache type True limit offset) = Inr r
     \<and> member r ''items'' = Some (JArr items)
     \<and> member r ''count'' = Some (JNum (int (length items)))
     \<and> member r ''limit'' = Some (JNum (effectiveLimit limit))
     \<and> member r ''total'' = Some (JNum (int (length allFiles)))
     \<and> int (length items) \<le> effectiveLimit limit \<and> effectiveLimit limit \<le> 45"
proof -
  have nonneg: "0 \<le> effectiveLimit limit"
    using assms(7) by (auto simp: effectiveLimit_def MAX_ITEMS_def split: option.splits)
  have "length itemsData = length (limitedFiles allFiles limit offset)"
    using assms(6) by (simp add: promise_all_length)
  then have "int (length itemsData) \<le> effectiveLimit limit"
    using page_within_limit[OF nonneg, of allFiles offset] by simp
  moreover have "length (filter truthy itemsData) \<le> length itemsData"
    by simp
  ultimately have "int (length (filter truthy itemsData)) \<le> effectiveLimit limit"
    by linarith
  then show ?thesis
    using handleList_full_miss[where cache = cache, OF assms(1-6)]
    by (simp add: member_fullData effectiveLimit_le_ceiling)
qed

text \<open>
  With a negative \<open>limit\<close> the page is every identifier but the last \<open>- limit\<close> ones:
  \<open>effectiveLimit\<close> is the negative number itself, and \<open>slice(0, effectiveLimit)\<close> counts
  it from the end of the array.
\<close>

lemma negative_limit_page:
  "length (limitedFiles allFiles (Some (- 1)) 0) = length allFiles - 1"
  by (simp add: limitedFiles_def jsonFiles_def effectiveLimit_def MAX_ITEMS_def slice_upto_neg)

text \<open>
  Claim C1 at \<open>GET /v1/items?full=true&limit=-1\<close>: on the directory with the identifiers
  \<open>a\<close> and \<open>b\<close> the response reports \<open>limit\<close> \<open>-1\<close> (not 45) and \<open>count\<close> 1, so
  \<open>count \<le> limit\<close> fails; and a directory of 47 identifiers gives a page of 46 item
  fetches, above the ceiling of 45.
\<close>

theorem negative_limit_escapes_ceiling:
  "member (returned (fetch (items_world (found item_a) (found item_b)) Map.empty
       (get_full ''/v1/items'' (Some (- 1)) None))) ''limit'' = Some (JNum (- 1))
   \<and> member (returned (fetch (items_world (found item_a) (found item_b)) Map.empty
       (get_full ''/v1/items'' (Some (- 1)) None))) ''count'' = Some (JNum 1)
   \<and> length (limitedFiles (map toString [1..47]) (Some (- 1)) 0) = 46"
proof -
  have page: "limitedFiles [''a'', ''b''] (Some (- 1)) 0 = [''a'']"
    by (simp add: limitedFiles_def jsonFiles_def effectiveLimit_def MAX_ITEMS_def slice_def)
  have "fetch (items_world (found item_a) (found item_b)) Map.empty
       (get_full ''/v1/items'' (Some (- 1)) None) =
     \<lparr>returned = addCorsHeaders (cacheable (fullData ''items'' 2 0 (effectiveLimit (Some (- 1))) [item_a])),
      stored = Map.empty(githubApiUrl ''items'' @ ''?full=true'' \<mapsto>
         cacheable (fullData ''items'' 2 0 (effectiveLimit (Some (- 1))) [item_a])),
      requested = githubApiUrl ''items'' # map (itemUrl ''items'') (limitedFiles [''a'', ''b''] (Some (- 1)) 0)\<rparr>"
    by (rule fetch_items_full_miss) (simp_all add: get_full_def page fetchItem_a)
  then show ?thesis
    by (simp add: member_fullData truthy_items effectiveLimit_def MAX_ITEMS_def negative_limit_page)
qed

section \<open>Cache keys of the full mode\<close>

text \<open>
  The key of a listing is the directory URL, with \<open>?full=true\<close> appended in the full
  mode. Whatever is stored under it answers every later request of that mode: the limit
  and the offset of the request are not read on a hit.
\<close>

lemma handleList_hit:
  assumes "COLLECTION_TYPES type = Some dirPath"
    and "cache (githubApiUrl dirPath @ (if full then ''?full=true'' else [])) = Some r"
  shows "handleList w cache type full limit offset =
     \<lparr>returned = Inr (addCorsHeaders r), stored = cache, requested = []\<rparr>"
  using assms by (simp add: handleList_def Let_def)

text \<open>
  Claim C2 at \<open>GET /v1/items?full=true\<close> and \<open>GET /v1/items?full=true&offset=1\<close>, each on
  an empty cache: the second payload has a \<open>prev\<close> member the first has not, and both
  are stored under the one key \<open>.../contents/items?full=true\<close>, which holds neither the
  offset nor the limit.
\<close>

theorem pages_share_one_cache_key:
  "members (returned (fetch (items_world (found item_a) (found item_b)) Map.empty
       (get_full ''/v1/items'' None None)))
     = [''type'', ''total'', ''count'', ''offset'', ''limit'', ''items'']
   \<and> members (returned (fetch (items_world (found item_a) (found item_b)) Map.empty
       (get_full ''/v1/items'' None (Some 1))))
     = [''type'', ''total'', ''count'', ''offset'', ''limit'', ''items'', ''prev'']
   \<and> dom (stored (fetch (items_world (found item_a) (found item_b)) Map.empty
       (get_full ''/v1/items'' None None)))
     = {githubApiUrl ''items'' @ ''?full=true''}
   \<and> dom (stored (fetch (items_world (found item_a) (found item_b)) Map.empty
       (get_full ''/v1/items'' None (Some 1))))
     = {githubApiUrl ''items'' @ ''?full=true''}"
proof -
  have first: "fetch (items_world (found item_a) (found item_b)) Map.empty
       (get_full ''/v1/items'' None None) =
     \<lparr>returned = addCorsHeaders (cacheable (fullData ''items'' 2 0 (effectiveLimit None) [item_a, item_b])),
      stored = Map.empty(githubApiUrl ''items'' @ ''?full=true'' \<mapsto>
         cacheable (fullData ''items'' 2 0 (effectiveLimit None) [item_a, item_b])),
      requested = githubApiUrl ''items'' # map (itemUrl ''items'') (limitedFiles [''a'', ''b''] None 0)\<rparr>"
    by (rule fetch_items_full_miss) (simp_all add: get_full_def page_all fetchItem_a fetchItem_b)
  have second: "fetch (items_world (found item_a) (found item_b)) Map.empty
       (get_full ''/v1/items'' None (Some 1)) =
     \<lparr>returned = addCorsHeaders (cacheable (fullData ''items'' 2 1 (effectiveLimit None) [item_b])),
      stored = Map.empty(githubApiUrl ''items'' @ ''?full=true'' \<mapsto>
         cacheable (fullData ''items'' 2 1 (effectiveLimit None) [item_b])),
      requested = githubApiUrl ''items'' # map (itemUrl ''items'') (limitedFiles [''a'', ''b''] None 1)\<rparr>"
    by (rule fetch_items_full_miss) (simp_all add: get_full_def page_from_1 fetchItem_b)
  show ?thesis
    by (simp add: first second members_fullData effectiveLimit_def MAX_ITEMS_def)
qed

section \<open>The list-only mode\<close>

text \<open>
  Claim C3, as the code has it. When \<open>full\<close> is false and the answer is built from the
  directory listing (no entry under the cache key, the listing fetched and well-formed),
  the response has status 200 and holds one pair of an id and the path
  \<open>/v1/{type}/{id}\<close> for every identifier of the sorted listing that is left after the
  first \<open>offset\<close> identifiers are dropped; \<open>limit\<close> plays no role, \<open>count\<close> is the number of
  pairs, and the only upstream request is the directory listing.
\<close>

theorem list_only_from_offset:
  assumes "COLLECTION_TYPES type = Some dirPath"
    and "cache (githubApiUrl dirPath) = None"
    and "upstream w (githubApiUrl dirPath) = Responded st (Some files)"
    and "ok st"
    and "allJsonFiles (localeCompare w) files = Inr allFiles"
  shows "\<exists>r. returned (handleList w cache type False limit offset) = Inr r
     \<and> status r = 200
     \<and> member r ''items'' = Some (JArr (map
          (\<lambda>ident. JObj [(''id'', JStr ident), (''url'', JStr (''/v1/'' @ type @ ''/'' @ ident))])
          (drop (nat offset) allFiles)))
     \<and> member r ''count'' = Some (JNum (int (length (drop (nat offset) allFiles))))
     \<and> requested (handleList w cache type False limit offset) = [githubApiUrl dirPath]"
proof -
  have "handleList w cache type False limit offset =
     \<lparr>returned = Inr (addCorsHeaders (cacheable (listData type (jsonFiles allFiles offset)))),
      stored = cache(githubApiUrl dirPath \<mapsto> cacheable (listData type (jsonFiles allFiles offset))),
      requested = [githubApiUrl dirPath]\<rparr>"
    using assms by (rule handleList_list_miss)
  then show ?thesis
    by (simp add: member_listData jsonFiles_drop)
qed

theorem list_only_from_offset_witness:
  "\<exists>r. returned (handleList (items_world Rejected Rejected) Map.empty ''items'' False (Some 1) 1) = Inr r
     \<and> status r = 200
     \<and> member r ''items'' = Some (JArr [JObj [(''id'', JStr ''b''), (''url'', JStr ''/v1/items/b'')]])
     \<and> member r ''count'' = Some (JNum 1)
     \<and> requested (handleList (items_world Rejected Rejected) Map.empty ''items'' False (Some 1) 1)
         = [githubApiUrl ''items'']"
  using list_only_from_offset[where cache = Map.empty and limit = "Some 1" and offset = 1,
      OF collection_items _ items_world_listing ok_200 items_world_ids]
  by simp

text \<open>
  Claim C3 as stated fails: \<open>GET /v1/items?offset=1\<close> on a directory whose identifiers are
  \<open>a\<close> and \<open>b\<close> answers with the pair of \<open>b\<close> alone, so the offset is applied in the
  list-only mode too.
\<close>

theorem list_only_applies_offset:
  "allJsonFiles (localeCompare (items_world Rejected Rejected)) items_listing = Inr [''a'', ''b'']
   \<and> member (returned (fetch (items_world Rejected Rejected) Map.empty
         ((get ''/v1/items'')\<lparr>param_offset := Some 1\<rparr>))) ''items''
       = Some (JArr [JObj [(''id'', JStr ''b''), (''url'', JStr ''/v1/items/b'')]])
   \<and> member (returned (fetch (items_world Rejected Rejected) Map.empty
         ((get ''/v1/items'')\<lparr>param_offset := Some 1\<rparr>))) ''count''
       = Some (JNum 1)"
  by (simp add: fetch_def route_items get_def items_world_ids
      handleList_list_miss[where cache = Map.empty, OF collection_items _ items_world_listing ok_200]
      member_listData jsonFiles_drop)

section \<open>Following the pagination links\<close>

text \<open>
  The pages themselves are sound: with a positive effective limit \<open>L\<close>, the pages at the
  offsets \<open>0\<close>, \<open>L\<close>, \<open>2L\<close>, ... that are built from one listing are its
  consecutive segments.
\<close>

lemma pages_tile:
  assumes "0 < L"
  shows "concat (map (\<lambda>k. take L (drop (k * L) xs)) [0..<m]) = take (m * L) xs"
proof (induction m)
  case 0
  then show ?case by simp
next
  case (Suc m)
  have "take (m * L) xs @ take L (drop (m * L) xs) = take (m * L + L) xs"
    by (simp add: take_add)
  with Suc show ?case by (simp add: add.commute)
qed

lemma fresh_pages_cover_listing:
  assumes "0 < effectiveLimit limit" and "length allFiles \<le> m * nat (effectiveLimit limit)"
  shows "concat (map (\<lambda>k. limitedFiles allFiles limit (int (k * nat (effectiveLimit limit)))) [0..<m])
       = allFiles"
proof -
  have "limitedFiles allFiles limit (int (k * nat (effectiveLimit limit)))
      = take (nat (effectiveLimit limit)) (drop (k * nat (effectiveLimit limit)) allFiles)" for k
    using assms(1) by (simp add: limitedFiles_take_drop nat_mult_distrib)
  then show ?thesis
    using assms pages_tile[of "nat (effectiveLimit limit)" allFiles m] by simp
qed

text \<open>
  Claim C4 at \<open>GET /v1/items?full=true&limit=1\<close> followed by its \<open>next\<close> link, on the
  directory with the identifiers \<open>a\<close> and \<open>b\<close>: the first answer holds item \<open>a\<close> and links
  to \<open>/v1/items?full=true&offset=1&limit=1\<close>; the request for that link finds the first
  answer under the cache key and returns it again, with no upstream request. The walk
  along \<open>next\<close> therefore never reaches a page without \<open>next\<close>, and item \<open>b\<close> is never
  served.
\<close>

theorem next_link_returns_cached_page:
  "member (returned (fetch (items_world (found item_a) (found item_b)) Map.empty
       (get_full ''/v1/items'' (Some 1) None))) ''next''
     = Some (JStr ''/v1/items?full=true&offset=1&limit=1'')
   \<and> member (returned (fetch (items_world (found item_a) (found item_b)) Map.empty
       (get_full ''/v1/items'' (Some 1) None))) ''items'' = Some (JArr [item_a])
   \<and> fetch (items_world (found item_a) (found item_b))
       (stored (fetch (items_world (found item_a) (found item_b)) Map.empty
          (get_full ''/v1/items'' (Some 1) None)))
       (get_full ''/v1/items'' (Some 1) (Some 1))
     = \<lparr>returned = returned (fetch (items_world (found item_a) (found item_b)) Map.empty
          (get_full ''/v1/items'' (Some 1) None)),
        stored = stored (fetch (items_world (found item_a) (found item_b)) Map.empty
          (get_full ''/v1/items'' (Some 1) None)),
        requested = []\<rparr>"
proof -
  have first: "fetch (items_world (found item_a) (found item_b)) Map.empty
       (get_full ''/v1/items'' (Some 1) None) =
     \<lparr>returned = addCorsHeaders (cacheable (fullData ''items'' 2 0 (effectiveLimit (Some 1)) [item_a])),
      stored = Map.empty(githubApiUrl ''items'' @ ''?full=true'' \<mapsto>
         cacheable (fullData ''items'' 2 0 (effectiveLimit (Some 1)) [item_a])),
      requested = githubApiUrl ''items'' # map (itemUrl ''items'') (limitedFiles [''a'', ''b''] (Some 1) 0)\<rparr>"
    by (rule fetch_items_full_miss) (simp_all add: get_full_def page_first fetchItem_a)
  have second: "fetch w (cache(githubApiUrl ''items'' @ ''?full=true'' \<mapsto> r))
       (get_full ''/v1/items'' (Some 1) (Some 1)) =
     \<lparr>returned = addCorsHeaders r, stored = cache(githubApiUrl ''items'' @ ''?full=true'' \<mapsto> r),
      requested = []\<rparr>" for w cache r
    by (simp add: fetch_def route_items get_full_def handleList_def collection_items)
  show ?thesis
    by (simp add: first second member_fullData member_fullData_next truthy_items
        effectiveLimit_def MAX_ITEMS_def toString_def digits.simps digit_def)
qed

section \<open>Failures inside the aggregate batch\<close>




section \<open>The message for a missing item\<close>

text \<open>
  An item fetch answered outside 200..299 ends in 404 with the type name less its last
  character, or in 502.
\<close>

lemma handleGetItem_not_found:
  assumes "COLLECTION_TYPES type = Some dirPath"
    and "cache (itemUrl dirPath ident) = None"
    and "upstream w (itemUrl dirPath ident) = Responded st b"
    and "\<not> ok st"
  shows "returned (handleGetItem w cache type ident) = Inr
     (if st = 404 then jsonResponse (error_body (butlast type @ '' not found: '' @ ident)) 404
      else jsonResponse (error_body ''Failed to fetch data'') 502)"
proof -
  have "slice type 0 (Some (- 1)) = butlast type"
    by (simp add: slice_upto_neg butlast_conv_take)
  then show ?thesis
    using assms by (simp add: handleGetItem_def itemUrl_def Let_def)
qed

text \<open>
  Claim C6 at \<open>GET /v1/hideout/ghost\<close> with an upstream that answers 404: the message is
  \<open>hideou not found: ghost\<close>, since \<open>type.slice(0, -1)\<close> cuts the last letter whatever
  it is; for \<open>/v1/items/ghost\<close> the same code gives \<open>item not found: ghost\<close>.
\<close>

theorem singular_drops_last_letter:
  "returned (fetch (serve []) Map.empty (get ''/v1/hideout/ghost''))
     = jsonResponse (error_body ''hideou not found: ghost'') 404
   \<and> returned (fetch (serve []) Map.empty (get ''/v1/items/ghost''))
     = jsonResponse (error_body ''item not found: ghost'') 404"
  by (simp add: fetch_def route_def get_def listMatch_def itemMatch_def strip_slash_def
      is_type_char_def is_id_char_def handleGetItem_def COLLECTION_TYPES_def serve_def ok_def
      slice_def Let_def)

section \<open>Identifiers from file names\<close>

text \<open>
  On a manifest of entries with a name and a type, the filter keeps the files whose name
  ends in \<open>.json\<close> and does not begin with \<open>_\<close>; a name without a dot before its
  extension loses exactly the extension; and for a collation that is total and transitive
  the identifiers come out sorted, none lost or added.
\<close>

lemma keep_file_entry:
  "keep_file (entry kind name) = Inr (kind = ''file'' \<and> endsWith name ''.json'' \<and> \<not> startsWith name ''_'')"
  by (simp add: entry_def)

lemma file_name_entry: "file_name (entry kind name) = name"
  by (simp add: entry_def)

lemma filter_files_entries:
  "filter_files (map (\<lambda>(kind, name). entry kind name) es) =
     Inr (map (\<lambda>(kind, name). entry kind name)
       (filter (\<lambda>(kind, name). kind = ''file'' \<and> endsWith name ''.json'' \<and> \<not> startsWith name ''_'') es))"
  by (induction es) (auto simp: keep_file_entry split: if_splits)

lemma replace_extension:
  "CHR ''.'' \<notin> set stem \<Longrightarrow> replace (stem @ ''.json'') ''.json'' [] = stem"
  by (induction stem) auto

lemma set_insort_by: "set (insort_by cmp x xs) = insert x (set xs)"
  by (induction xs) auto

lemma length_insort_by: "length (insort_by cmp x xs) = Suc (length xs)"
  by (induction xs) auto

lemma set_sort_by: "set (sort_by cmp xs) = set xs"
  by (induction xs) (auto simp: sort_by_def set_insort_by)

lemma length_sort_by: "length (sort_by cmp xs) = length xs"
  by (induction xs) (auto simp: sort_by_def length_insort_by)

lemma sorted_insort_by:
  assumes total: "\<And>a b. cmp a b \<le> 0 \<or> cmp b a \<le> 0"
    and trans: "\<And>a b c. cmp a b \<le> 0 \<Longrightarrow> cmp b c \<le> 0 \<Longrightarrow> cmp a c \<le> 0"
  shows "sorted_wrt (\<lambda>a b. cmp a b \<le> 0) xs \<Longrightarrow> sorted_wrt (\<lambda>a b. cmp a b \<le> 0) (insort_by cmp x xs)"
proof (induction xs)
  case Nil
  then show ?case by simp
next
  case (Cons y ys)
  show ?case
  proof (cases "cmp x y \<le> 0")
    case True
    with Cons.prems trans show ?thesis by auto
  next
    case False
    with total have "cmp y x \<le> 0" by blast
    with Cons False show ?thesis by (auto simp: set_insort_by)
  qed
qed

lemma sorted_sort_by:
  assumes "\<And>a b. cmp a b \<le> 0 \<or> cmp b a \<le> 0"
    and "\<And>a b c. cmp a b \<le> 0 \<Longrightarrow> cmp b c \<le> 0 \<Longrightarrow> cmp a c \<le> 0"
  shows "sorted_wrt (\<lambda>a b. cmp a b \<le> 0) (sort_by cmp xs)"
proof (induction xs)
  case Nil
  then show ?case by (simp add: sort_by_def)
next
  case (Cons x xs)
  then show ?case
    using sorted_insort_by[of cmp "sort_by cmp xs" x, OF assms] by (simp add: sort_by_def)
qed

text \<open>
  Claim C7 at the manifest with the one file \<open>x.jsonl.json\<close>: \<open>name.replace('.json', '')\<close>
  removes the first \<open>.json\<close> of the name, not the extension, so the identifier is
  \<open>xl.json\<close> and not \<open>x.jsonl\<close>, and the full mode asks upstream for
  \<open>items/xl.json.json\<close>, a file the directory does not have.
\<close>

theorem replace_removes_first_match:
  "allJsonFiles cmp (JArr [entry ''file'' ''x.jsonl.json'']) = Inr [''xl.json'']
   \<and> requested (fetch
         (serve [(githubApiUrl ''items'',
            Responded 200 (Some (JArr [entry ''file'' ''x.jsonl.json''])))])
         Map.empty (get_full ''/v1/items'' None None))
       = [githubApiUrl ''items'', GITHUB_BASE @ ''/items/xl.json.json'']"
  by (simp add: allJsonFiles_def entry_def endsWith_def startsWith_def sort_by_def
      fetch_def route_items get_full_def handleList_def collection_items serve_def ok_def
      limitedFiles_def jsonFiles_def effectiveLimit_def MAX_ITEMS_def slice_def Let_def
      fetchItem_def itemUrl_def split: sum.splits)

section \<open>The alias of the skill nodes\<close>

lemma route_skill_nodes:
  "pathname req = ''/v1/skill-nodes'' \<Longrightarrow> route w cache req = handleSingleFile w cache ''skill-nodes''"
  by (simp add: route_def listMatch_def strip_slash_def is_type_char_def SINGLE_FILE_TYPES_def)

lemma route_skillNodes:
  "pathname req = ''/v1/skillNodes'' \<Longrightarrow>
   route w cache req = answer (jsonResponse (error_body ''Not Found'') 404) cache"
  by (simp add: route_def listMatch_def itemMatch_def strip_slash_def is_type_char_def)

lemma handleSingleFile_same_file:
  assumes "SINGLE_FILE_TYPES a = Some f" and "SINGLE_FILE_TYPES t = Some f"
  shows "requested (handleSingleFile w cache a) = requested (handleSingleFile w cache t)
     \<and> stored (handleSingleFile w cache a) = stored (handleSingleFile w cache t)
     \<and> (returned (handleSingleFile w cache a) = returned (handleSingleFile w cache t)
        \<or> returned (handleSingleFile w cache a)
              = Inr (jsonResponse (error_body (''Data not found: '' @ a)) 404)
          \<and> returned (handleSingleFile w cache t)
              = Inr (jsonResponse (error_body (''Data not found: '' @ t)) 404))"
  using assms
  by (auto simp: handleSingleFile_def Let_def split: option.splits fetch_result.splits)

text \<open>
  Claim C8, as the code has it. The type registry maps the alias \<open>skill-nodes\<close> and the
  canonical name \<open>skillNodes\<close> to the same file, and \<open>handleSingleFile\<close> called with two
  names of one file fetches the same upstream URL and reads and writes the same cache key:
  its upstream requests and the cache it leaves are equal, and so is what it returns but
  for the type name in the message of an upstream 404. Of the two names the router admits
  only the alias: \<open>/v1/skill-nodes\<close> is handled by \<open>handleSingleFile\<close>, while
  \<open>/v1/skillNodes\<close> matches no route pattern (a type is spelt in lower-case letters and
  hyphens) and is answered 404 \<open>Not Found\<close>.
\<close>

theorem alias_reads_same_file:
  "SINGLE_FILE_TYPES ''skill-nodes'' = Some ''skillNodes.json''
   \<and> SINGLE_FILE_TYPES ''skillNodes'' = Some ''skillNodes.json''
   \<and> (SINGLE_FILE_TYPES a = Some f \<and> SINGLE_FILE_TYPES t = Some f \<longrightarrow>
        requested (handleSingleFile w cache a) = requested (handleSingleFile w cache t)
        \<and> stored (handleSingleFile w cache a) = stored (handleSingleFile w cache t)
        \<and> (returned (handleSingleFile w cache a) = returned (handleSingleFile w cache t)
           \<or> returned (handleSingleFile w cache a)
                 = Inr (jsonResponse (error_body (''Data not found: '' @ a)) 404)
             \<and> returned (handleSingleFile w cache t)
                 = Inr (jsonResponse (error_body (''Data not found: '' @ t)) 404)))
   \<and> (pathname req = ''/v1/skill-nodes'' \<longrightarrow>
        route w cache req = handleSingleFile w cache ''skill-nodes'')
   \<and> (pathname req' = ''/v1/skillNodes'' \<longrightarrow>
        route w cache req' = answer (jsonResponse (error_body ''Not Found'') 404) cache)"
  using handleSingleFile_same_file[of a f t w cache]
  by (simp add: route_skill_nodes route_skillNodes) (simp add: SINGLE_FILE_TYPES_def)

theorem alias_reads_same_file_witness:
  "requested (handleSingleFile skill_world Map.empty ''skill-nodes'')
       = requested (handleSingleFile skill_world Map.empty ''skillNodes'')
   \<and> stored (handleSingleFile skill_world Map.empty ''skill-nodes'')
       = stored (handleSingleFile skill_world Map.empty ''skillNodes'')
   \<and> returned (handleSingleFile skill_world Map.empty ''skill-nodes'')
       = returned (handleSingleFile skill_world Map.empty ''skillNodes'')
   \<and> requested (handleSingleFile skill_world Map.empty ''skill-nodes'')
       = [GITHUB_BASE @ ''/skillNodes.json'']
   \<and> route skill_world Map.empty (get ''/v1/skill-nodes'')
       = handleSingleFile skill_world Map.empty ''skill-nodes''
   \<and> route skill_world Map.empty (get ''/v1/skillNodes'')
       = answer (jsonResponse (error_body ''Not Found'') 404) Map.empty"
proof -
  have run: "handleSingleFile skill_world Map.empty ''skill-nodes'' =
      \<lparr>returned = Inr (addCorsHeaders (passthrough_response (Some (JArr [])))),
       stored = [GITHUB_BASE @ ''/skillNodes.json'' \<mapsto> passthrough_response (Some (JArr []))],
       requested = [GITHUB_BASE @ ''/skillNodes.json'']\<rparr>"
    by (simp add: handleSingleFile_def SINGLE_FILE_TYPES_def skill_world_def serve_def found_def
        ok_def Let_def)
  have found: "returned (handleSingleFile skill_world Map.empty ''skill-nodes'')
      \<noteq> Inr (jsonResponse (error_body (''Data not found: '' @ ''skill-nodes'')) 404)"
    by (simp add: run jsonResponse_def passthrough_response_def addCorsHeaders_def)
  have same: "SINGLE_FILE_TYPES ''skill-nodes'' = Some ''skillNodes.json''
      \<and> SINGLE_FILE_TYPES ''skillNodes'' = Some ''skillNodes.json''"
    by (simp add: SINGLE_FILE_TYPES_def)
  have paths: "pathname (get ''/v1/skill-nodes'') = ''/v1/skill-nodes''"
    "pathname (get ''/v1/skillNodes'') = ''/v1/skillNodes''"
    by (simp_all add: get_def)
  from alias_reads_same_file[of "''skill-nodes''" "''skillNodes.json''" "''skillNodes''" skill_world Map.empty
        "get ''/v1/skill-nodes''" "get ''/v1/skillNodes''"] same paths found
  have "requested (handleSingleFile skill_world Map.empty ''skill-nodes'')
       = requested (handleSingleFile skill_world Map.empty ''skillNodes'')"
    and "stored (handleSingleFile skill_world Map.empty ''skill-nodes'')
       = stored (handleSingleFile skill_world Map.empty ''skillNodes'')"
    and "returned (handleSingleFile skill_world Map.empty ''skill-nodes'')
       = returned (handleSingleFile skill_world Map.empty ''skillNodes'')"
    and "route skill_world Map.empty (get ''/v1/skill-nodes'')
       = handleSingleFile skill_world Map.empty ''skill-nodes''"
    and "route skill_world Map.empty (get ''/v1/skillNodes'')
       = answer (jsonResponse (error_body ''Not Found'') 404) Map.empty"
    by blast+
  moreover have "requested (handleSingleFile skill_world Map.empty ''skill-nodes'')
       = [GITHUB_BASE @ ''/skillNodes.json'']"
    by (simp add: run)
  ultimately show ?thesis
    by blast
qed

text \<open>
  Claim C8 as stated fails at the request \<open>GET /v1/skillNodes\<close>: it is answered 404
  \<open>Not Found\<close> without any upstream request or cache key, while \<open>GET /v1/skill-nodes\<close>
  fetches \<open>skillNodes.json\<close> and is answered 200.
\<close>

theorem canonical_name_is_not_routed:
  "fetch skill_world Map.empty (get ''/v1/skillNodes'')
     = \<lparr>returned = jsonResponse (error_body ''Not Found'') 404, stored = Map.empty, requested = []\<rparr>
   \<and> requested (fetch skill_world Map.empty (get ''/v1/skill-nodes'')) = [GITHUB_BASE @ ''/skillNodes.json'']
   \<and> status (returned (fetch skill_world Map.empty (get ''/v1/skill-nodes''))) = 200"
  by (simp add: fetch_def get_def route_skill_nodes route_skillNodes answer_def
      handleSingleFile_def SINGLE_FILE_TYPES_def skill_world_def serve_def found_def ok_def Let_def
      passthrough_response_def)

section \<open>Response headers\<close>

text \<open>
  A response with status 200 that a handler returns went through \<open>addCorsHeaders\<close>: the
  error answers, built by \<open>jsonResponse\<close> alone, have the status 404 or 502.
\<close>

lemma addCorsHeaders_secured: "cors_and_security_headers (addCorsHeaders r)"
  by (simp add: cors_and_security_headers_def headers_get_addCorsHeaders cors_headers_def)

lemma handleCors_preflight: "preflight_headers handleCors \<and> body handleCors = NoBody"
  by (simp add: preflight_headers_def headers_get_def handleCors_def)

lemma handleSingleFile_200:
  "returned (handleSingleFile w cache t) = Inr r \<Longrightarrow> status r = 200 \<Longrightarrow> \<exists>r0. r = addCorsHeaders r0"
  by (auto simp: handleSingleFile_def Let_def jsonResponse_def
      split: option.splits fetch_result.splits if_splits)

lemma handleGetItem_200:
  "returned (handleGetItem w cache t i) = Inr r \<Longrightarrow> status r = 200 \<Longrightarrow> \<exists>r0. r = addCorsHeaders r0"
  by (auto simp: handleGetItem_def Let_def jsonResponse_def
      split: option.splits fetch_result.splits if_splits)

lemma handleList_200:
  "returned (handleList w cache t full limit offset) = Inr r \<Longrightarrow> status r = 200 \<Longrightarrow>
   \<exists>r0. r = addCorsHeaders r0"
  by (auto simp: handleList_def Let_def jsonResponse_def
      split: option.splits fetch_result.splits if_splits sum.splits)

lemma route_200:
  assumes "returned (route w cache req) = Inr r" and "status r = 200"
    and "pathname req \<noteq> ''/v1''" and "pathname req \<noteq> ''/v1/''" and "pathname req \<noteq> ''/''"
  shows "\<exists>r0. r = addCorsHeaders r0"
  using assms
  by (auto simp: route_def answer_def jsonResponse_def Let_def
      dest: handleSingleFile_200 handleGetItem_200 handleList_200
      split: option.splits if_splits prod.splits)

text \<open>
  Claim C9, as the code has it. The answer to an \<open>OPTIONS\<close> request has no body and
  carries the three \<open>Access-Control-Allow-*\<close> headers, \<open>Access-Control-Max-Age: 86400\<close>
  and \<open>Strict-Transport-Security\<close>. Every answer with status 200 to another request,
  the API info document at \<open>/\<close>, \<open>/v1\<close> and \<open>/v1/\<close> apart, carries the eight CORS
  and security headers of the claim.
\<close>

theorem headers_of_success_and_preflight:
  "(http_method req = ''OPTIONS'' \<longrightarrow>
      preflight_headers (returned (fetch w cache req)) \<and> body (returned (fetch w cache req)) = NoBody)
   \<and> (http_method req \<noteq> ''OPTIONS'' \<and> status (returned (fetch w cache req)) = 200
       \<and> pathname req \<noteq> ''/v1'' \<and> pathname req \<noteq> ''/v1/'' \<and> pathname req \<noteq> ''/'' \<longrightarrow>
      cors_and_security_headers (returned (fetch w cache req)))"
proof (intro conjI impI)
  assume "http_method req = ''OPTIONS''"
  then show "preflight_headers (returned (fetch w cache req))"
    and "body (returned (fetch w cache req)) = NoBody"
    by (simp_all add: fetch_def handleCors_preflight)
next
  assume a: "http_method req \<noteq> ''OPTIONS'' \<and> status (returned (fetch w cache req)) = 200
       \<and> pathname req \<noteq> ''/v1'' \<and> pathname req \<noteq> ''/v1/'' \<and> pathname req \<noteq> ''/''"
  then obtain r where r: "returned (route w cache req) = Inr r" "returned (fetch w cache req) = r"
    by (cases "returned (route w cache req)") (auto simp: fetch_def Let_def jsonResponse_def)
  with a have "\<exists>r0. r = addCorsHeaders r0"
    by (intro route_200[of w cache req]) auto
  with r show "cors_and_security_headers (returned (fetch w cache req))"
    by (auto simp: addCorsHeaders_secured)
qed

theorem headers_of_success_and_preflight_witness:
  "preflight_headers (returned (fetch skill_world Map.empty ((get ''/v1/items'')\<lparr>http_method := ''OPTIONS''\<rparr>)))
   \<and> body (returned (fetch skill_world Map.empty ((get ''/v1/items'')\<lparr>http_method := ''OPTIONS''\<rparr>))) = NoBody
   \<and> status (returned (fetch skill_world Map.empty (get ''/v1/skill-nodes''))) = 200
   \<and> cors_and_security_headers (returned (fetch skill_world Map.empty (get ''/v1/skill-nodes'')))"
proof -
  have ok: "status (returned (fetch skill_world Map.empty (get ''/v1/skill-nodes''))) = 200"
    by (simp add: fetch_def get_def route_skill_nodes
      handleSingleFile_def SINGLE_FILE_TYPES_def skill_world_def serve_def found_def ok_def Let_def
      passthrough_response_def)
  show ?thesis
    using headers_of_success_and_preflight[of "(get ''/v1/items'')\<lparr>http_method := ''OPTIONS''\<rparr>"
        skill_world Map.empty]
      headers_of_success_and_preflight[of "get ''/v1/skill-nodes''" skill_world Map.empty] ok
    by (simp add: get_def)
qed

text \<open>
  Claim C9 as stated fails: the preflight answer has no \<open>X-Frame-Options\<close> header, and
  the 404 for an unknown type and the API info document carry \<open>Content-Type\<close> alone.
\<close>

theorem preflight_and_errors_lack_headers:
  "headers_get (returned (fetch skill_world Map.empty ((get ''/v1/items'')\<lparr>http_method := ''OPTIONS''\<rparr>)))
       ''X-Frame-Options'' = None
   \<and> headers (returned (fetch skill_world Map.empty (get ''/v1/not-a-type'')))
       = [(''Content-Type'', ''application/json'')]
   \<and> status (returned (fetch skill_world Map.empty (get ''/v1/not-a-type''))) = 404
   \<and> headers (returned (fetch skill_world Map.empty (get ''/v1'')))
       = [(''Content-Type'', ''application/json'')]"
  by (simp add: fetch_def get_def handleCors_def headers_get_def route_def listMatch_def
      itemMatch_def strip_slash_def is_type_char_def SINGLE_FILE_TYPES_def COLLECTION_TYPES_def
      answer_def jsonResponse_def)

section \<open>Falsy payloads in the full mode\<close>

text \<open>
  The answer of the full mode reads the batch only through \<open>itemsData.filter(Boolean)\<close>,
  so two upstreams whose item answers differ only between falsy values (the \<open>null\<close>
  placeholder among them) give the same answer.
\<close>

lemma falsy_values:
  "(\<not> truthy j) = (j = JNull \<or> j = JBool False \<or> j = JNum 0 \<or> j = JStr [])"
  by (cases j) auto


lemma itemUrl_not_listing_full: "itemUrl d x \<noteq> githubApiUrl d' @ ''?full=true''"
  by (simp add: itemUrl_def githubApiUrl_def GITHUB_BASE_def)







end
